theory Spec2Isabelle
  imports Complex_Main
begin

section \<open>Risk heuristics (web\_app/app.py)\<close>

text \<open>
  The four scoring functions of the interactive form take plain Python numbers (the
  sliders deliver integers, and a float for the sleep duration). They only compare their
  arguments with integer literals, which is exact on floats, so the arguments are modelled
  as reals. The score itself is a Python integer.
\<close>

definition calculate_health_risk_score ::
  "real \<Rightarrow> real \<Rightarrow> real \<Rightarrow> real \<Rightarrow> real \<Rightarrow> real \<Rightarrow> real \<Rightarrow> int" where
  "calculate_health_risk_score sleep_duration quality_score deep_sleep_pct rem_sleep_pct
       age stress_level heart_rate =
    (let risk_score = 0;
         risk_score = (if sleep_duration < 6 then risk_score + 30
                       else if sleep_duration < 7 then risk_score + 15
                       else if sleep_duration > 9 then risk_score + 10
                       else risk_score);
         risk_score = (if quality_score < 60 then risk_score + 25
                       else if quality_score < 75 then risk_score + 15
                       else risk_score);
         risk_score = (if deep_sleep_pct < 15 then risk_score + 20 else risk_score);
         risk_score = (if rem_sleep_pct < 20 then risk_score + 15 else risk_score);
         risk_score = (if age \<ge> 60 then risk_score + 20
                       else if age \<ge> 45 then risk_score + 10
                       else risk_score);
         risk_score = (if stress_level \<ge> 8 then risk_score + 25
                       else if stress_level \<ge> 6 then risk_score + 15
                       else risk_score);
         risk_score = (if heart_rate > 75 then risk_score + 15
                       else if heart_rate < 55 then risk_score + 10
                       else risk_score)
     in min 100 risk_score)"

definition predict_health_conditions ::
  "real \<Rightarrow> real \<Rightarrow> real \<Rightarrow> real \<Rightarrow> real \<Rightarrow> real \<Rightarrow> real \<Rightarrow> string list" where
  "predict_health_conditions sleep_duration quality_score deep_sleep_pct rem_sleep_pct
       age stress_level heart_rate =
    (let conditions = [];
         conditions = (if sleep_duration < 6 \<and> heart_rate > 70
                       then conditions @ [''Increased cardiovascular risk''] else conditions);
         conditions = (if sleep_duration < 6 \<or> sleep_duration > 9
                       then conditions @ [''Metabolic disorder risk''] else conditions);
         conditions = (if deep_sleep_pct < 15 \<or> rem_sleep_pct < 20
                       then conditions @ [''Cognitive decline risk''] else conditions);
         conditions = (if stress_level > 7 \<and> quality_score < 70
                       then conditions @ [''Mental health vulnerability''] else conditions);
         conditions = (if age > 50 \<and> deep_sleep_pct < 18
                       then conditions @ [''Age-related sleep disorder risk''] else conditions)
     in conditions)"

text \<open>
  \<open>estimate_life_expectancy_impact\<close> computes in floating point (\<open>1.5\<close>, the true
  division by \<open>100\<close>); the model is its real-number reading. The two local variables of
  the source are kept as definitions of their own.
\<close>

definition base_impact :: "real \<Rightarrow> real \<Rightarrow> real \<Rightarrow> real" where
  "base_impact sleep_duration quality_score stress_level =
    (let base_impact = 0;
         base_impact = (if sleep_duration < 6 then base_impact - 3
                        else if sleep_duration < 7 then base_impact - 1.5
                        else if sleep_duration > 9 then base_impact - 1
                        else base_impact);
         base_impact = (if quality_score < 60 then base_impact - 2
                        else if quality_score < 75 then base_impact - 1
                        else base_impact);
         base_impact = (if stress_level > 7 then base_impact - 2 else base_impact)
     in base_impact)"

definition age_factor :: "real \<Rightarrow> real" where
  "age_factor age = (if age > 30 then 1 + (age - 30) / 100 else 1)"

definition estimate_life_expectancy_impact :: "real \<Rightarrow> real \<Rightarrow> real \<Rightarrow> real \<Rightarrow> real" where
  "estimate_life_expectancy_impact sleep_duration quality_score stress_level age =
     base_impact sleep_duration quality_score stress_level * age_factor age"

text \<open>The seven penalty terms of the score, one per \<open>if\<close>/\<open>elif\<close> chain.\<close>

definition duration_penalty :: "real \<Rightarrow> int" where
  "duration_penalty d = (if d < 6 then 30 else if d < 7 then 15 else if d > 9 then 10 else 0)"

definition quality_penalty :: "real \<Rightarrow> int" where
  "quality_penalty q = (if q < 60 then 25 else if q < 75 then 15 else 0)"

definition deep_penalty :: "real \<Rightarrow> int" where
  "deep_penalty p = (if p < 15 then 20 else 0)"

definition rem_penalty :: "real \<Rightarrow> int" where
  "rem_penalty p = (if p < 20 then 15 else 0)"

definition age_penalty :: "real \<Rightarrow> int" where
  "age_penalty a = (if a \<ge> 60 then 20 else if a \<ge> 45 then 10 else 0)"

definition stress_penalty :: "real \<Rightarrow> int" where
  "stress_penalty s = (if s \<ge> 8 then 25 else if s \<ge> 6 then 15 else 0)"

definition heart_penalty :: "real \<Rightarrow> int" where
  "heart_penalty h = (if h > 75 then 15 else if h < 55 then 10 else 0)"

section \<open>Tables\<close>

text \<open>
  A pandas column of dtype \<open>float64\<close> holds floats or the missing marker NaN; a
  \<open>datetime64\<close> column holds timestamps or NaT. A cell is an option, \<open>None\<close> being
  the missing marker, a float is read as the real number it denotes, and a date is the
  number of its calendar day, counted from 1970-01-01. A table of the Observation schema is
  the list of its rows, in row order; the fields are in the column order of the generator.
\<close>

type_synonym cell = "real option"

record observation =
  date :: "int option"
  sleep_duration :: cell
  quality_score :: cell
  bedtime :: cell
  wake_time :: cell
  activity_level :: cell
  stress_level :: cell
  heart_rate :: cell
  deep_sleep_pct :: cell
  rem_sleep_pct :: cell
  light_sleep_pct :: cell

text \<open>The exceptions the modelled code can raise; \<open>Exception\<close> carries its message.\<close>

datatype error = ValueError | KeyError | TypeError | OverflowError | Exception string

text \<open>Arithmetic on cells: NaN propagates through every operation.\<close>

definition nan2 :: "(real \<Rightarrow> real \<Rightarrow> real) \<Rightarrow> cell \<Rightarrow> cell \<Rightarrow> cell" where
  "nan2 f a b = (case a of None \<Rightarrow> None | Some x \<Rightarrow> (case b of None \<Rightarrow> None | Some y \<Rightarrow> Some (f x y)))"

text \<open>\<open>np.mod\<close> on floats takes the sign of the divisor; \<open>np.clip\<close> is \<open>min (max x lo) hi\<close>.\<close>

definition np_mod :: "real \<Rightarrow> real \<Rightarrow> real" where
  "np_mod x m = x - m * of_int \<lfloor>x / m\<rfloor>"

definition np_clip :: "real \<Rightarrow> real \<Rightarrow> cell \<Rightarrow> cell" where
  "np_clip lo hi c = map_option (\<lambda>x. min (max x lo) hi) c"

section \<open>Synthetic data generator and loader (src/data/data\_loader.py)\<close>

text \<open>
  \<open>np.random\<close> is a library with one global generator state. Its state type \<open>'g\<close>
  and its two functions are parameters of the model: \<open>seed\<close> gives the state after
  \<open>np.random.seed\<close>, and \<open>normal loc scale g\<close> is one variate of
  \<open>np.random.normal(loc, scale)\<close> drawn in state \<open>g\<close>, with the state after it. A
  call with \<open>size = n\<close> draws \<open>n\<close> variates one after the other, and raises
  \<open>ValueError\<close> for a negative size.
\<close>

fun normal_n :: "(real \<Rightarrow> real \<Rightarrow> 'g \<Rightarrow> real \<times> 'g) \<Rightarrow> real \<Rightarrow> real \<Rightarrow> nat \<Rightarrow> 'g \<Rightarrow> real list \<times> 'g" where
  "normal_n normal loc scale 0 g = ([], g)"
| "normal_n normal loc scale (Suc n) g =
     (let (x, g) = normal loc scale g;
          (xs, g) = normal_n normal loc scale n g
      in (x # xs, g))"

record generator =
  n_samples :: int

text \<open>
  \<open>SleepDataGenerator.__init__\<close> stores the sample count as it is and reseeds the global
  generator with 42: it returns the object and the new global state.
\<close>

definition SleepDataGenerator :: "(nat \<Rightarrow> 'g) \<Rightarrow> int \<Rightarrow> 'g \<Rightarrow> generator \<times> 'g" where
  "SleepDataGenerator seed n g = (\<lparr>n_samples = n\<rparr>, seed 42)"

text \<open>
  \<open>datetime(2025, 1, 1)\<close> is day 20089 after 1970-01-01. Python's \<open>datetime\<close> ranges
  from 0001-01-01 to 9999-12-31, the days \<open>-719162\<close> and \<open>2932896\<close>; adding a
  \<open>timedelta\<close> that leaves the range raises \<open>OverflowError\<close>. (A \<open>timedelta\<close>
  of more than 999999999 days raises the same error by itself, and it also leaves the range.)
\<close>

definition start_date :: int where
  "start_date = 20089"

definition datetime_min :: int where
  "datetime_min = - 719162"

definition datetime_max :: int where
  "datetime_max = 2932896"

definition datetime_add_days :: "int \<Rightarrow> int \<Rightarrow> error + int" where
  "datetime_add_days d x =
     (if d + x < datetime_min \<or> datetime_max < d + x then Inl OverflowError else Inr (d + x))"

text \<open>
  A list comprehension evaluates its element expression from the first element on and
  stops at the first exception.
\<close>

fun list_comprehension :: "('a \<Rightarrow> error + 'b) \<Rightarrow> 'a list \<Rightarrow> error + 'b list" where
  "list_comprehension f [] = Inr []"
| "list_comprehension f (x # xs) =
     (case f x of
        Inl e \<Rightarrow> Inl e
      | Inr y \<Rightarrow> (case list_comprehension f xs of Inl e \<Rightarrow> Inl e | Inr ys \<Rightarrow> Inr (y # ys)))"

definition apply_constraints :: "observation list \<Rightarrow> observation list" where
  "apply_constraints df =
     map (\<lambda>r. r\<lparr>sleep_duration := np_clip 4 12 (sleep_duration r),
                quality_score := np_clip 0 100 (quality_score r),
                activity_level := np_clip 0 120 (activity_level r),
                stress_level := np_clip 0 10 (stress_level r),
                heart_rate := np_clip 45 85 (heart_rate r)\<rparr>) df"

text \<open>
  \<open>generate_data\<close>: the list of dates is built first, one \<open>start_date + timedelta(days=x)\<close>
  for every \<open>x\<close> of \<open>range(n_samples)\<close>, which is empty for a count that is not
  positive; the addition raises \<open>OverflowError\<close> as soon as a date passes 9999-12-31,
  before any variate is drawn. The eight columns are then drawn in the order of the
  dictionary literal; each call \<open>np.random.normal(_, _, n_samples)\<close> raises
  \<open>ValueError\<close> for a negative count, and the first of them is reached before a table
  exists. The two derived columns are computed from the unclipped values, then the
  constraints are applied.
\<close>

definition generate_data ::
  "(real \<Rightarrow> real \<Rightarrow> 'g \<Rightarrow> real \<times> 'g) \<Rightarrow> generator \<Rightarrow> 'g \<Rightarrow> (error + observation list) \<times> 'g" where
  "generate_data normal self g =
     (let n = n_samples self
      in case list_comprehension (\<lambda>x. datetime_add_days start_date (int x)) [0..<nat n] of
        Inl e \<Rightarrow> (Inl e, g)
      | Inr dates \<Rightarrow>
         if n < 0 then (Inl ValueError, g)
         else
           let (sd, g) = normal_n normal 7.5 1.5 (nat n) g;
               (qs, g) = normal_n normal 75 15 (nat n) g;
               (bt, g) = normal_n normal 23 1.5 (nat n) g;
               (al, g) = normal_n normal 45 20 (nat n) g;
               (sl, g) = normal_n normal 5 2 (nat n) g;
               (hr, g) = normal_n normal 65 5 (nat n) g;
               (dp, g) = normal_n normal 20 5 (nat n) g;
               (rp, g) = normal_n normal 25 5 (nat n) g;
               df = map (\<lambda>i. \<lparr>date = Some (dates ! i),
                                sleep_duration = Some (sd ! i),
                                quality_score = Some (qs ! i),
                                bedtime = Some (bt ! i),
                                wake_time = None,
                                activity_level = Some (al ! i),
                                stress_level = Some (sl ! i),
                                heart_rate = Some (hr ! i),
                                deep_sleep_pct = Some (dp ! i),
                                rem_sleep_pct = Some (rp ! i),
                                light_sleep_pct = None\<rparr>) [0..<nat n];
               df = map (\<lambda>r. r\<lparr>wake_time :=
                           map_option (\<lambda>x. np_mod x 24) (nan2 (+) (bedtime r) (sleep_duration r))\<rparr>) df;
               df = map (\<lambda>r. r\<lparr>light_sleep_pct :=
                           nan2 (-) (nan2 (-) (Some 100) (deep_sleep_pct r)) (rem_sleep_pct r)\<rparr>) df
           in (Inr (apply_constraints df), g))"

text \<open>One run of the generator: construct it, then generate.\<close>

definition run_generator ::
  "(nat \<Rightarrow> 'g) \<Rightarrow> (real \<Rightarrow> real \<Rightarrow> 'g \<Rightarrow> real \<times> 'g) \<Rightarrow> int \<Rightarrow> 'g \<Rightarrow> (error + observation list) \<times> 'g" where
  "run_generator seed normal n g =
     (let (self, g) = SleepDataGenerator seed n g in generate_data normal self g)"

text \<open>
  \<open>load_from_csv\<close>: \<open>pd.read_csv\<close> is the library's reader, a parameter of the model
  that either returns a table or fails with an exception, given by its \<open>str()\<close>. Every
  \<open>Exception\<close> it raises is caught and a new \<open>Exception\<close> is raised whose message
  is the f-string of the source.
\<close>

definition load_from_csv :: "(string \<Rightarrow> string + observation list) \<Rightarrow> string \<Rightarrow> error + observation list" where
  "load_from_csv read_csv filepath =
     (case read_csv filepath of
        Inr df \<Rightarrow> Inr df
      | Inl e \<Rightarrow> Inl (Exception (''Error loading data from '' @ filepath @ '': '' @ e)))"

text \<open>
  A concrete instance of the library parameters, to run the generator on: the state is a
  counter of the variates drawn so far, and a variate is the mean plus zero, one or two
  standard deviations.
\<close>

definition counter_seed :: "nat \<Rightarrow> nat" where
  "counter_seed s = s"

definition counter_normal :: "real \<Rightarrow> real \<Rightarrow> nat \<Rightarrow> real \<times> nat" where
  "counter_normal loc scale g = (loc + scale * real (g mod 3), Suc g)"

section \<open>Data transformer (src/etl/transformer.py)\<close>

text \<open>
  \<open>clean_data\<close>, first statement: \<open>self.data[self.data.select_dtypes(include=[np.number]) >= 0]\<close>.
  The key is a Boolean table, not a Boolean column, so pandas evaluates
  \<open>self.data.where(key)\<close>: no row is dropped; a cell is kept where the key is true and
  replaced by the missing marker where it is false. A negative number and NaN fail
  \<open>>= 0\<close>. The key has the numeric columns only; \<open>where\<close> aligns it with the table and
  fills the positions it lacks with false, so every cell of the \<open>date\<close> column, which
  is not numeric, becomes NaT.
\<close>

definition keep_nonneg :: "cell \<Rightarrow> cell" where
  "keep_nonneg c = (case c of None \<Rightarrow> None | Some x \<Rightarrow> (if x \<ge> 0 then Some x else None))"

definition mask_nonneg :: "observation \<Rightarrow> observation" where
  "mask_nonneg r =
     \<lparr>date = None,
      sleep_duration = keep_nonneg (sleep_duration r),
      quality_score = keep_nonneg (quality_score r),
      bedtime = keep_nonneg (bedtime r),
      wake_time = keep_nonneg (wake_time r),
      activity_level = keep_nonneg (activity_level r),
      stress_level = keep_nonneg (stress_level r),
      heart_rate = keep_nonneg (heart_rate r),
      deep_sleep_pct = keep_nonneg (deep_sleep_pct r),
      rem_sleep_pct = keep_nonneg (rem_sleep_pct r),
      light_sleep_pct = keep_nonneg (light_sleep_pct r)\<rparr>"

text \<open>
  \<open>drop_duplicates\<close> keeps the first occurrence of every row, in row order, and takes
  two missing markers in the same column for equal.
\<close>

fun drop_duplicates_seen :: "'a list \<Rightarrow> 'a list \<Rightarrow> 'a list" where
  "drop_duplicates_seen seen [] = []"
| "drop_duplicates_seen seen (r # rs) =
     (if r \<in> set seen then drop_duplicates_seen seen rs
      else r # drop_duplicates_seen (r # seen) rs)"

definition drop_duplicates :: "'a list \<Rightarrow> 'a list" where
  "drop_duplicates df = drop_duplicates_seen [] df"

text \<open>
  \<open>sort_values('date')\<close> sorts ascending and puts the rows with a missing date last, in
  their former order. The rows with a date are sorted here by a stable insertion sort;
  numpy's default quicksort leaves the order of rows with equal dates open, and no
  property below depends on it.
\<close>

definition date_key :: "observation \<Rightarrow> int" where
  "date_key r = (case date r of Some d \<Rightarrow> d | None \<Rightarrow> 0)"

definition sort_values_date :: "observation list \<Rightarrow> observation list" where
  "sort_values_date df =
     sort_key date_key (filter (\<lambda>r. date r \<noteq> None) df) @ filter (\<lambda>r. date r = None) df"

definition clean_data :: "observation list \<Rightarrow> observation list" where
  "clean_data df =
     (let df = map mask_nonneg df;
          df = drop_duplicates df;
          df = sort_values_date df
      in df)"

text \<open>
  The numeric columns of a row, a test for a negative cell (NaN is not negative), and the
  order of dates in which the missing date is the greatest.
\<close>

definition numeric_cells :: "observation \<Rightarrow> cell list" where
  "numeric_cells r = [sleep_duration r, quality_score r, bedtime r, wake_time r, activity_level r,
     stress_level r, heart_rate r, deep_sleep_pct r, rem_sleep_pct r, light_sleep_pct r]"

definition is_negative :: "cell \<Rightarrow> bool" where
  "is_negative c = (case c of None \<Rightarrow> False | Some x \<Rightarrow> x < 0)"

definition date_le :: "int option \<Rightarrow> int option \<Rightarrow> bool" where
  "date_le a b = (case b of None \<Rightarrow> True | Some y \<Rightarrow> (case a of None \<Rightarrow> False | Some x \<Rightarrow> x \<le> y))"

text \<open>
  \<open>engineer_features\<close> adds six columns. A timestamp is modelled by its number of hours
  since 1970-01-01 00:00: \<open>pd.to_datetime(date.dt.date) + pd.to_timedelta(bedtime, unit='h')\<close>
  is midnight of the day plus the hours, missing when either is. \<open>Series.diff()\<close> is the
  column minus the column shifted down by one row, whose first cell is missing.
  \<open>dt.dayofweek\<close> counts from Monday, and 1970-01-01 was a Thursday.
\<close>

record engineered = observation +
  bedtime_datetime :: cell
  wake_time_datetime :: cell
  sleep_efficiency :: cell
  bedtime_shift :: cell
  sleep_debt :: cell
  day_of_week :: "int option"

definition to_datetime_plus_hours :: "int option \<Rightarrow> cell \<Rightarrow> cell" where
  "to_datetime_plus_hours d h =
     (case d of None \<Rightarrow> None | Some day \<Rightarrow> (case h of None \<Rightarrow> None | Some x \<Rightarrow> Some (24 * of_int day + x)))"

definition shift1 :: "cell list \<Rightarrow> cell list" where
  "shift1 xs = (case xs of [] \<Rightarrow> [] | _ # _ \<Rightarrow> None # butlast xs)"

definition series_diff :: "cell list \<Rightarrow> cell list" where
  "series_diff xs = map (\<lambda>(x, p). nan2 (-) x p) (zip xs (shift1 xs))"

definition dayofweek :: "int \<Rightarrow> int" where
  "dayofweek d = (d + 3) mod 7"

definition engineer_features :: "observation list \<Rightarrow> engineered list" where
  "engineer_features df =
     (let shift = map (map_option abs) (series_diff (map bedtime df))
      in map (\<lambda>(r, s). observation.extend r
            (engineered.fields
               (to_datetime_plus_hours (date r) (bedtime r))
               (to_datetime_plus_hours (date r) (wake_time r))
               (map_option (\<lambda>x. x / 100)
                  (nan2 (+) (deep_sleep_pct r) (map_option (\<lambda>x. 0.5 * x) (rem_sleep_pct r))))
               s
               (map_option (\<lambda>x. 8 - x) (sleep_duration r))
               (map_option dayofweek (date r))))
          (zip df shift))"

text \<open>A sample row, to run the pipeline on.\<close>

definition typical_night :: observation where
  "typical_night = \<lparr>date = Some 20089, sleep_duration = Some 7.5, quality_score = Some 80,
     bedtime = Some 23, wake_time = Some 6.5, activity_level = Some 45, stress_level = Some 5,
     heart_rate = Some 65, deep_sleep_pct = Some 20, rem_sleep_pct = Some 25,
     light_sleep_pct = Some 55\<rparr>"

section \<open>Sleep analyzer (src/analysis/analyzer.py)\<close>

text \<open>
  The analyzer works on the table \<open>engineer_features\<close> returns. A column is selected by
  its name; the two timestamp columns and the date column are not numeric, and the day of
  the week is an integer column.
\<close>

datatype column = Numeric "engineered \<Rightarrow> cell" | Datetime

definition columns :: "(string \<times> column) list" where
  "columns =
     [(''date'', Datetime),
      (''sleep_duration'', Numeric sleep_duration),
      (''quality_score'', Numeric quality_score),
      (''bedtime'', Numeric bedtime),
      (''wake_time'', Numeric wake_time),
      (''activity_level'', Numeric activity_level),
      (''stress_level'', Numeric stress_level),
      (''heart_rate'', Numeric heart_rate),
      (''deep_sleep_pct'', Numeric deep_sleep_pct),
      (''rem_sleep_pct'', Numeric rem_sleep_pct),
      (''light_sleep_pct'', Numeric light_sleep_pct),
      (''bedtime_datetime'', Datetime),
      (''wake_time_datetime'', Datetime),
      (''sleep_efficiency'', Numeric sleep_efficiency),
      (''bedtime_shift'', Numeric bedtime_shift),
      (''sleep_debt'', Numeric sleep_debt),
      (''day_of_week'', Numeric (\<lambda>r. map_option of_int (day_of_week r)))]"

text \<open>
  \<open>scipy.stats.zscore(a)\<close> with its defaults (\<open>ddof=0\<close>, \<open>nan_policy='propagate'\<close>):
  the mean and the population standard deviation of the column, then
  \<open>(a - mean) / std\<close>. A missing value in the column makes the mean, and with it every
  score, NaN. A standard deviation of zero makes every score NaN as well (scipy sets the
  scores of a constant column to NaN); no exception is raised.
\<close>

definition np_mean :: "real list \<Rightarrow> real" where
  "np_mean xs = sum_list xs / real (length xs)"

definition np_std :: "real list \<Rightarrow> real" where
  "np_std xs = sqrt (np_mean (map (\<lambda>x. (x - np_mean xs)\<^sup>2) xs))"

definition zscore :: "cell list \<Rightarrow> cell list" where
  "zscore a =
     (case those a of
        None \<Rightarrow> map (\<lambda>_. None) a
      | Some xs \<Rightarrow>
          (let mn = np_mean xs; std = np_std xs
           in map (\<lambda>x. if std = 0 then None else Some ((x - mn) / std)) xs))"

text \<open>
  \<open>detect_anomalies\<close>: \<open>np.abs(z_scores) > threshold\<close> is false for a NaN score, and
  indexing the table with this Boolean array keeps the rows where it is true, in row order.
  An unknown column name raises \<open>KeyError\<close>, a column that is not numeric
  \<open>TypeError\<close>.
\<close>

definition exceeds :: "real \<Rightarrow> cell \<Rightarrow> bool" where
  "exceeds threshold z = (case z of None \<Rightarrow> False | Some v \<Rightarrow> \<bar>v\<bar> > threshold)"

definition detect_anomalies :: "string \<Rightarrow> real \<Rightarrow> engineered list \<Rightarrow> error + engineered list" where
  "detect_anomalies column threshold df =
     (case map_of columns column of
        None \<Rightarrow> Inl KeyError
      | Some Datetime \<Rightarrow> Inl TypeError
      | Some (Numeric col) \<Rightarrow>
          (let z_scores = zscore (map col df);
               mask = map (exceeds threshold) z_scores
           in Inr (map fst (filter snd (zip df mask)))))"

text \<open>
  \<open>analyze_weekly_patterns\<close>: \<open>groupby('day_of_week')\<close> makes one group for every day
  of the week that occurs in the table, in ascending order of the day, and leaves out the
  rows whose day is missing. The mean of a group skips the missing cells of the column and
  is NaN when the group has no other cell. \<open>round(2)\<close> is \<open>np.round\<close>, which rounds
  \<open>x * 100\<close> to the nearest integer, a half to the even one, and divides by 100. The
  result is given column by column, in the order of the dictionary literal, each column as
  the list of its (day, mean) pairs.
\<close>

definition rint :: "real \<Rightarrow> int" where
  "rint x = (let f = \<lfloor>x\<rfloor>; d = x - of_int f
             in if d < 1 / 2 then f else if d > 1 / 2 then f + 1
                else if even f then f else f + 1)"

definition np_round2 :: "real \<Rightarrow> real" where
  "np_round2 x = of_int (rint (x * 100)) / 100"

definition nanmean :: "cell list \<Rightarrow> cell" where
  "nanmean cs = (let xs = List.map_filter (\<lambda>c. c) cs
                 in if xs = [] then None else Some (np_mean xs))"

definition group_keys :: "engineered list \<Rightarrow> int list" where
  "group_keys df = sort (remdups (List.map_filter day_of_week df))"

definition group_rows :: "int \<Rightarrow> engineered list \<Rightarrow> engineered list" where
  "group_rows k df = filter (\<lambda>r. day_of_week r = Some k) df"

definition groupby_mean :: "(engineered \<Rightarrow> cell) \<Rightarrow> engineered list \<Rightarrow> (int \<times> cell) list" where
  "groupby_mean col df = map (\<lambda>k. (k, nanmean (map col (group_rows k df)))) (group_keys df)"

definition weekly_columns :: "(engineered \<Rightarrow> cell) list" where
  "weekly_columns = [sleep_duration, quality_score, deep_sleep_pct, bedtime, wake_time]"

definition analyze_weekly_patterns :: "engineered list \<Rightarrow> (int \<times> cell) list list" where
  "analyze_weekly_patterns df =
     map (\<lambda>col. map (\<lambda>(k, m). (k, map_option np_round2 m)) (groupby_mean col df)) weekly_columns"

text \<open>
  The re-aggregation of the group means is not an operation of the program; it is the
  check the specification asks of the weekly means, stated here in its words: the mean of
  the day-group means of one column, each weighted by the number of rows of its group.
\<close>

definition reaggregate :: "(int \<times> cell) list \<Rightarrow> engineered list \<Rightarrow> cell" where
  "reaggregate means df =
     (let n = sum_list (map (\<lambda>(k, m). real (length (group_rows k df))) means);
          total = foldr (\<lambda>(k, m) acc.
                    nan2 (+) (map_option (\<lambda>x. real (length (group_rows k df)) * x) m) acc)
                    means (Some 0)
      in if n = 0 then None else map_option (\<lambda>t. t / n) total)"

text \<open>A table of two nights on consecutive days, with the given sleep durations.\<close>

definition nights :: "real \<Rightarrow> real \<Rightarrow> engineered list" where
  "nights a b = engineer_features [typical_night\<lparr>sleep_duration := Some a\<rparr>,
      typical_night\<lparr>date := Some 20090, sleep_duration := Some b\<rparr>]"

section \<open>Properties of the risk heuristics\<close>

lemma if_add_else: "(if c then r + a else r + b) = r + (if c then a else (b::int))"
  by simp

lemma if_add_only: "(if c then r + a else r) = r + (if c then a else (0::int))"
  by simp

lemma score_as_sum:
  "calculate_health_risk_score d q dp rp a s h =
     min 100 (duration_penalty d + quality_penalty q + deep_penalty dp + rem_penalty rp
              + age_penalty a + stress_penalty s + heart_penalty h)"
  unfolding calculate_health_risk_score_def if_add_only if_add_else
  unfolding Let_def duration_penalty_def quality_penalty_def
    deep_penalty_def rem_penalty_def age_penalty_def stress_penalty_def heart_penalty_def
  by (simp only: add_0)

lemma duration_penalty_nonneg: "0 \<le> duration_penalty d"
  by (simp add: duration_penalty_def)

lemma quality_penalty_nonneg: "0 \<le> quality_penalty q"
  by (simp add: quality_penalty_def)

lemma deep_penalty_nonneg: "0 \<le> deep_penalty p"
  by (simp add: deep_penalty_def)

lemma rem_penalty_nonneg: "0 \<le> rem_penalty p"
  by (simp add: rem_penalty_def)

lemma age_penalty_nonneg: "0 \<le> age_penalty a"
  by (simp add: age_penalty_def)

lemma stress_penalty_nonneg: "0 \<le> stress_penalty s"
  by (simp add: stress_penalty_def)

lemma heart_penalty_nonneg: "0 \<le> heart_penalty h"
  by (simp add: heart_penalty_def)

lemma score_range:
  "0 \<le> calculate_health_risk_score d q dp rp a s h \<and>
   calculate_health_risk_score d q dp rp a s h \<le> 100"
  using duration_penalty_nonneg [of d] quality_penalty_nonneg [of q] deep_penalty_nonneg [of dp]
    rem_penalty_nonneg [of rp] age_penalty_nonneg [of a] stress_penalty_nonneg [of s]
    heart_penalty_nonneg [of h]
  by (simp add: score_as_sum)

lemma duration_penalty_short: "d' \<le> d \<Longrightarrow> d \<le> 9 \<Longrightarrow> duration_penalty d \<le> duration_penalty d'"
  by (simp add: duration_penalty_def)

lemma duration_penalty_long: "7 \<le> d \<Longrightarrow> d \<le> d' \<Longrightarrow> duration_penalty d \<le> duration_penalty d'"
  by (simp add: duration_penalty_def)

lemma duration_penalty_below_6: "d' < 6 \<Longrightarrow> duration_penalty d \<le> duration_penalty d'"
  by (simp add: duration_penalty_def)

lemma quality_penalty_mono: "q' \<le> q \<Longrightarrow> quality_penalty q \<le> quality_penalty q'"
  by (simp add: quality_penalty_def)

lemma deep_penalty_mono: "p' \<le> p \<Longrightarrow> deep_penalty p \<le> deep_penalty p'"
  by (simp add: deep_penalty_def)

lemma rem_penalty_mono: "p' \<le> p \<Longrightarrow> rem_penalty p \<le> rem_penalty p'"
  by (simp add: rem_penalty_def)

lemma age_penalty_mono: "a \<le> a' \<Longrightarrow> age_penalty a \<le> age_penalty a'"
  by (simp add: age_penalty_def)

lemma stress_penalty_mono: "s \<le> s' \<Longrightarrow> stress_penalty s \<le> stress_penalty s'"
  by (simp add: stress_penalty_def)

lemma heart_penalty_fast: "55 \<le> h \<Longrightarrow> h \<le> h' \<Longrightarrow> heart_penalty h \<le> heart_penalty h'"
  by (simp add: heart_penalty_def)

lemma heart_penalty_slow: "h' \<le> h \<Longrightarrow> h \<le> 75 \<Longrightarrow> heart_penalty h \<le> heart_penalty h'"
  by (simp add: heart_penalty_def)

text \<open>
  Claim C4. The risk score always lies in \<open>[0, 100]\<close>, and changing one input in a
  risk-increasing direction, the other six held fixed, never decreases it. The directions
  are the ones the penalty tiers of the code define: a lower quality score, deep-sleep or
  REM percentage; a higher age or stress level; for the two inputs that are penalised on
  both sides of a healthy band, a shorter sleep from at most 9 hours (in particular any
  move to below 6 hours) or a longer one from at least 7 hours, and a faster heart rate
  from at least 55 or a slower one from at most 75.
\<close>

theorem risk_score_bounded_and_monotone:
  "0 \<le> calculate_health_risk_score d q dp rp a s h
   \<and> calculate_health_risk_score d q dp rp a s h \<le> 100
   \<and> (d' \<le> d \<and> d \<le> 9 \<longrightarrow>
        calculate_health_risk_score d q dp rp a s h \<le> calculate_health_risk_score d' q dp rp a s h)
   \<and> (d' < 6 \<longrightarrow>
        calculate_health_risk_score d q dp rp a s h \<le> calculate_health_risk_score d' q dp rp a s h)
   \<and> (7 \<le> d \<and> d \<le> d' \<longrightarrow>
        calculate_health_risk_score d q dp rp a s h \<le> calculate_health_risk_score d' q dp rp a s h)
   \<and> (q' \<le> q \<longrightarrow>
        calculate_health_risk_score d q dp rp a s h \<le> calculate_health_risk_score d q' dp rp a s h)
   \<and> (dp' \<le> dp \<longrightarrow>
        calculate_health_risk_score d q dp rp a s h \<le> calculate_health_risk_score d q dp' rp a s h)
   \<and> (rp' \<le> rp \<longrightarrow>
        calculate_health_risk_score d q dp rp a s h \<le> calculate_health_risk_score d q dp rp' a s h)
   \<and> (a \<le> a' \<longrightarrow>
        calculate_health_risk_score d q dp rp a s h \<le> calculate_health_risk_score d q dp rp a' s h)
   \<and> (s \<le> s' \<longrightarrow>
        calculate_health_risk_score d q dp rp a s h \<le> calculate_health_risk_score d q dp rp a s' h)
   \<and> (55 \<le> h \<and> h \<le> h' \<longrightarrow>
        calculate_health_risk_score d q dp rp a s h \<le> calculate_health_risk_score d q dp rp a s h')
   \<and> (h' \<le> h \<and> h \<le> 75 \<longrightarrow>
        calculate_health_risk_score d q dp rp a s h \<le> calculate_health_risk_score d q dp rp a s h')"
proof -
  have dur1: "d' \<le> d \<and> d \<le> 9 \<longrightarrow>
      calculate_health_risk_score d q dp rp a s h \<le> calculate_health_risk_score d' q dp rp a s h"
    using duration_penalty_short [of d' d] by (auto simp: score_as_sum)
  have dur2: "d' < 6 \<longrightarrow>
      calculate_health_risk_score d q dp rp a s h \<le> calculate_health_risk_score d' q dp rp a s h"
    using duration_penalty_below_6 [of d' d] by (auto simp: score_as_sum)
  have dur3: "7 \<le> d \<and> d \<le> d' \<longrightarrow>
      calculate_health_risk_score d q dp rp a s h \<le> calculate_health_risk_score d' q dp rp a s h"
    using duration_penalty_long [of d d'] by (auto simp: score_as_sum)
  have qual: "q' \<le> q \<longrightarrow>
      calculate_health_risk_score d q dp rp a s h \<le> calculate_health_risk_score d q' dp rp a s h"
    using quality_penalty_mono [of q' q] by (auto simp: score_as_sum)
  have deep: "dp' \<le> dp \<longrightarrow>
      calculate_health_risk_score d q dp rp a s h \<le> calculate_health_risk_score d q dp' rp a s h"
    using deep_penalty_mono [of dp' dp] by (auto simp: score_as_sum)
  have rem: "rp' \<le> rp \<longrightarrow>
      calculate_health_risk_score d q dp rp a s h \<le> calculate_health_risk_score d q dp rp' a s h"
    using rem_penalty_mono [of rp' rp] by (auto simp: score_as_sum)
  have age: "a \<le> a' \<longrightarrow>
      calculate_health_risk_score d q dp rp a s h \<le> calculate_health_risk_score d q dp rp a' s h"
    using age_penalty_mono [of a a'] by (auto simp: score_as_sum)
  have stress: "s \<le> s' \<longrightarrow>
      calculate_health_risk_score d q dp rp a s h \<le> calculate_health_risk_score d q dp rp a s' h"
    using stress_penalty_mono [of s s'] by (auto simp: score_as_sum)
  have heart1: "55 \<le> h \<and> h \<le> h' \<longrightarrow>
      calculate_health_risk_score d q dp rp a s h \<le> calculate_health_risk_score d q dp rp a s h'"
    using heart_penalty_fast [of h h'] by (auto simp: score_as_sum)
  have heart2: "h' \<le> h \<and> h \<le> 75 \<longrightarrow>
      calculate_health_risk_score d q dp rp a s h \<le> calculate_health_risk_score d q dp rp a s h'"
    using heart_penalty_slow [of h' h] by (auto simp: score_as_sum)
  from score_range [of d q dp rp a s h] dur1 dur2 dur3 qual deep rem age stress heart1 heart2
  show ?thesis by blast
qed

theorem risk_score_bounded_and_monotone_witness:
  "0 \<le> calculate_health_risk_score 8 80 20 25 30 5 60
   \<and> calculate_health_risk_score 8 80 20 25 30 5 60 \<le> 100
   \<and> calculate_health_risk_score 8 80 20 25 30 5 60 \<le> calculate_health_risk_score 5 80 20 25 30 5 60
   \<and> calculate_health_risk_score 8 80 20 25 30 5 60 \<le> calculate_health_risk_score 10 80 20 25 30 5 60
   \<and> calculate_health_risk_score 8 80 20 25 30 5 60 \<le> calculate_health_risk_score 8 50 20 25 30 5 60
   \<and> calculate_health_risk_score 8 80 20 25 30 5 60 \<le> calculate_health_risk_score 8 80 10 25 30 5 60
   \<and> calculate_health_risk_score 8 80 20 25 30 5 60 \<le> calculate_health_risk_score 8 80 20 15 30 5 60
   \<and> calculate_health_risk_score 8 80 20 25 30 5 60 \<le> calculate_health_risk_score 8 80 20 25 65 5 60
   \<and> calculate_health_risk_score 8 80 20 25 30 5 60 \<le> calculate_health_risk_score 8 80 20 25 30 9 60
   \<and> calculate_health_risk_score 8 80 20 25 30 5 60 \<le> calculate_health_risk_score 8 80 20 25 30 5 80
   \<and> calculate_health_risk_score 8 80 20 25 30 5 60 \<le> calculate_health_risk_score 8 80 20 25 30 5 50"
  using risk_score_bounded_and_monotone [of 8 80 20 25 30 5 60 5 50 10 15 65 9 80]
    risk_score_bounded_and_monotone [of 8 80 20 25 30 5 60 10 50 10 15 65 9 50]
  by simp

text \<open>
  Claim C6. At the inputs duration 5, quality 50, deep 10, REM 15, age 65, stress 9 and
  heart rate 80 the penalties add up to 150, the score is clamped to exactly 100, and the
  list of predicted conditions is not empty and contains the cardiovascular-risk label.
\<close>

theorem scenario_high_risk:
  "calculate_health_risk_score 5 50 10 15 65 9 80 = 100
   \<and> duration_penalty 5 + quality_penalty 50 + deep_penalty 10 + rem_penalty 15
       + age_penalty 65 + stress_penalty 9 + heart_penalty 80 = 150
   \<and> predict_health_conditions 5 50 10 15 65 9 80 \<noteq> []
   \<and> ''Increased cardiovascular risk'' \<in> set (predict_health_conditions 5 50 10 15 65 9 80)"
  by (simp add: calculate_health_risk_score_def predict_health_conditions_def Let_def
      duration_penalty_def quality_penalty_def deep_penalty_def rem_penalty_def
      age_penalty_def stress_penalty_def heart_penalty_def)

text \<open>
  Claim C10. \<open>estimate_life_expectancy_impact\<close> never returns a positive number: the
  base impact is a sum of non-positive penalty terms and the age-scaling factor is always
  positive (at least 1).
\<close>

theorem life_expectancy_impact_nonpositive:
  "base_impact d q s \<le> 0
   \<and> 1 \<le> age_factor a
   \<and> estimate_life_expectancy_impact d q s a \<le> 0"
proof -
  have b: "base_impact d q s \<le> 0"
    by (simp add: base_impact_def Let_def)
  have f: "1 \<le> age_factor a"
    by (simp add: age_factor_def)
  from f have "0 \<le> age_factor a" by simp
  with b have "base_impact d q s * age_factor a \<le> 0"
    by (rule mult_nonpos_nonneg)
  with b f show ?thesis by (simp add: estimate_life_expectancy_impact_def)
qed

section \<open>Properties of the generator and the loader\<close>

lemma length_normal_n: "length (fst (normal_n normal loc scale n g)) = n"
  by (induction n arbitrary: g) (simp_all add: Let_def case_prod_beta)

lemma list_comprehension_succeeds:
  "\<forall>x \<in> set xs. f x = Inr (h x) \<Longrightarrow> list_comprehension f xs = Inr (map h xs)"
  by (induction xs) simp_all

lemma list_comprehension_fails:
  "\<exists>x \<in> set xs. f x = Inl e \<Longrightarrow> \<forall>x \<in> set xs. \<forall>e'. f x = Inl e' \<longrightarrow> e' = e
     \<Longrightarrow> list_comprehension f xs = Inl e"
proof (induction xs)
  case Nil
  then show ?case by simp
next
  case (Cons a xs)
  show ?case
  proof (cases "f a")
    case (Inl e')
    with Cons.prems(2) have "e' = e" by simp
    with Inl show ?thesis by simp
  next
    case (Inr y)
    with Cons.prems(1) have "\<exists>x \<in> set xs. f x = Inl e" by auto
    moreover from Cons.prems(2) have "\<forall>x \<in> set xs. \<forall>e'. f x = Inl e' \<longrightarrow> e' = e" by simp
    ultimately have "list_comprehension f xs = Inl e" by (rule Cons.IH)
    with Inr show ?thesis by simp
  qed
qed

lemma dates_in_range:
  "int m \<le> 2912808 \<Longrightarrow>
     list_comprehension (\<lambda>x. datetime_add_days start_date (int x)) [0..<m]
       = Inr (map (\<lambda>x. start_date + int x) [0..<m])"
  by (rule list_comprehension_succeeds)
     (simp add: datetime_add_days_def start_date_def datetime_min_def datetime_max_def)

lemma dates_overflow:
  assumes "2912808 < int m"
  shows "list_comprehension (\<lambda>x. datetime_add_days start_date (int x)) [0..<m] = Inl OverflowError"
proof (rule list_comprehension_fails)
  from assms have "(2912808::nat) \<in> set [0..<m]" by simp
  moreover have "datetime_add_days start_date (int 2912808) = Inl OverflowError"
    by (simp add: datetime_add_days_def start_date_def datetime_min_def datetime_max_def)
  ultimately show "\<exists>x \<in> set [0..<m]. datetime_add_days start_date (int x) = Inl OverflowError"
    by blast
  show "\<forall>x \<in> set [0..<m]. \<forall>e'. datetime_add_days start_date (int x) = Inl e' \<longrightarrow> e' = OverflowError"
    by (simp add: datetime_add_days_def)
qed

lemma generate_data_negative:
  "n_samples self < 0 \<Longrightarrow> generate_data normal self g = (Inl ValueError, g)"
  by (simp add: generate_data_def Let_def)

lemma generate_data_overflow:
  "2912808 < n_samples self \<Longrightarrow> generate_data normal self g = (Inl OverflowError, g)"
  by (simp add: generate_data_def Let_def dates_overflow)

lemma date_apply_constraints: "map date (apply_constraints df) = map date df"
  by (simp add: apply_constraints_def)

lemma length_apply_constraints: "length (apply_constraints df) = length df"
  by (simp add: apply_constraints_def)

lemma generate_data_rows:
  assumes "0 \<le> n_samples self" and "n_samples self \<le> 2912808"
  shows "\<exists>t. fst (generate_data normal self g) = Inr t \<and> length t = nat (n_samples self)
           \<and> map date t = map (\<lambda>i. Some (start_date + int i)) [0..<nat (n_samples self)]"
proof -
  from assms have "int (nat (n_samples self)) \<le> 2912808" by simp
  then have "list_comprehension (\<lambda>x. datetime_add_days start_date (int x)) [0..<nat (n_samples self)]
       = Inr (map (\<lambda>x. start_date + int x) [0..<nat (n_samples self)])"
    by (rule dates_in_range)
  with assms show ?thesis
    by (simp add: generate_data_def Let_def case_prod_beta date_apply_constraints
        length_apply_constraints o_def)
qed

lemma run_generator_state_independent:
  "run_generator seed normal n g = run_generator seed normal n g'"
  by (simp add: run_generator_def SleepDataGenerator_def)

lemma run_generator_unfold:
  "run_generator seed normal n g = generate_data normal \<lparr>n_samples = n\<rparr> (seed 42)"
  by (simp add: run_generator_def SleepDataGenerator_def)

text \<open>
  Claim C3, as amended. The constructor accepts every sample count. Generation fails for
  every negative count: the sampler raises \<open>ValueError\<close> before a table exists and before
  a variate is drawn. A count of zero is not rejected: generation succeeds with the empty
  table. Generation also fails for every count above 2912808: the list of dates passes
  9999-12-31 and \<open>OverflowError\<close> is raised before a variate is drawn. For every count
  from 0 to 2912808 generation succeeds with a table of that many rows, so these are the
  only two error conditions.
\<close>

theorem generator_rejects_only_negative_counts:
  "fst (SleepDataGenerator seed n g) = \<lparr>n_samples = n\<rparr>
   \<and> (n < 0 \<longrightarrow> run_generator seed normal n g = (Inl ValueError, seed 42))
   \<and> (n = 0 \<longrightarrow> fst (run_generator seed normal n g) = Inr [])
   \<and> (0 \<le> n \<and> n \<le> 2912808 \<longrightarrow>
        (\<exists>t. fst (run_generator seed normal n g) = Inr t \<and> length t = nat n))
   \<and> (2912808 < n \<longrightarrow> run_generator seed normal n g = (Inl OverflowError, seed 42))"
proof -
  have neg: "n < 0 \<longrightarrow> run_generator seed normal n g = (Inl ValueError, seed 42)"
    by (simp add: run_generator_unfold generate_data_negative)
  have pos: "0 \<le> n \<and> n \<le> 2912808 \<longrightarrow>
        (\<exists>t. fst (run_generator seed normal n g) = Inr t \<and> length t = nat n)"
    using generate_data_rows [of "\<lparr>n_samples = n\<rparr>" normal "seed 42"]
    by (auto simp: run_generator_unfold)
  from pos have zero: "n = 0 \<longrightarrow> fst (run_generator seed normal n g) = Inr []"
    by auto
  have big: "2912808 < n \<longrightarrow> run_generator seed normal n g = (Inl OverflowError, seed 42)"
    by (simp add: run_generator_unfold generate_data_overflow)
  from neg pos zero big show ?thesis
    by (simp add: SleepDataGenerator_def)
qed

theorem generator_rejects_only_negative_counts_witness:
  "run_generator counter_seed counter_normal (- 1) 7 = (Inl ValueError, 42)
   \<and> fst (run_generator counter_seed counter_normal 0 7) = Inr []
   \<and> (\<exists>t. fst (run_generator counter_seed counter_normal 3 7) = Inr t \<and> length t = 3)
   \<and> run_generator counter_seed counter_normal 2912809 7 = (Inl OverflowError, 42)"
  using generator_rejects_only_negative_counts [of counter_seed "- 1" 7 counter_normal]
    generator_rejects_only_negative_counts [of counter_seed 0 7 counter_normal]
    generator_rejects_only_negative_counts [of counter_seed 3 7 counter_normal]
    generator_rejects_only_negative_counts [of counter_seed 2912809 7 counter_normal]
  by (simp add: counter_seed_def)

text \<open>
  The claim as stated fails at the sample count 0, which is not positive: the generator
  does not reject it, it returns the empty table. And a negative count is not the only
  error condition: a count of three million is rejected too.
\<close>

theorem generator_accepts_zero_count:
  "fst (run_generator counter_seed counter_normal 0 7) = Inr []
   \<and> fst (run_generator counter_seed counter_normal 0 7) \<noteq> Inl ValueError
   \<and> fst (run_generator counter_seed counter_normal 3000000 7) = Inl OverflowError"
proof -
  have "fst (run_generator counter_seed counter_normal 0 7) = Inr []"
    by (simp add: run_generator_unfold generate_data_def apply_constraints_def)
  moreover have "fst (run_generator counter_seed counter_normal 3000000 7) = Inl OverflowError"
    by (simp add: run_generator_unfold generate_data_overflow)
  ultimately show ?thesis by simp
qed

text \<open>
  Claim C5, as amended. For every sample count from 1 to 2912808 a run of the generator
  (construction, then generation) returns a table with exactly that many rows; the dates
  of the rows are consecutive calendar days, starting at the fixed epoch 2025-01-01. For
  every sample count, the outcome of a run does not depend on the state of the global
  random generator before the run, since the constructor reseeds it with the fixed seed:
  two runs with the same count have the same outcome.
\<close>

theorem generator_rows_dates_deterministic:
  "run_generator seed normal n g = run_generator seed normal n g'
   \<and> (0 < n \<and> n \<le> 2912808 \<longrightarrow>
       (\<exists>t. fst (run_generator seed normal n g) = Inr t
          \<and> length t = nat n
          \<and> map date t = map (\<lambda>i. Some (start_date + int i)) [0..<nat n]
          \<and> fst (run_generator seed normal n g') = Inr t))"
  using generate_data_rows [of "\<lparr>n_samples = n\<rparr>" normal "seed 42"]
  by (auto simp: run_generator_unfold)

theorem generator_rows_dates_deterministic_witness:
  "run_generator counter_seed counter_normal 2 7 = run_generator counter_seed counter_normal 2 99
   \<and> (\<exists>t. fst (run_generator counter_seed counter_normal 2 7) = Inr t
        \<and> length t = 2
        \<and> map date t = [Some 20089, Some 20090]
        \<and> fst (run_generator counter_seed counter_normal 2 99) = Inr t)"
proof -
  note run = generator_rows_dates_deterministic [of counter_seed counter_normal 2 7 99]
  have count: "(0::int) < 2 \<and> (2::int) \<le> 2912808" by simp
  from run have same: "run_generator counter_seed counter_normal 2 7 = run_generator counter_seed counter_normal 2 99"
    by (rule conjunct1)
  from run [THEN conjunct2, THEN mp, OF count]
  obtain t where t: "fst (run_generator counter_seed counter_normal 2 7) = Inr t"
      "fst (run_generator counter_seed counter_normal 2 99) = Inr t"
    and rows: "length t = nat 2" "map date t = map (\<lambda>i. Some (start_date + int i)) [0..<nat 2]"
    by blast
  have "[0..<nat 2] = [0, Suc 0]" by (simp add: numeral_2_eq_2)
  with rows have len: "length t = 2" and dates: "map date t = [Some 20089, Some 20090]"
    by (simp_all add: start_date_def)
  from t len dates
  have "\<exists>t. fst (run_generator counter_seed counter_normal 2 7) = Inr t
        \<and> length t = 2
        \<and> map date t = [Some 20089, Some 20090]
        \<and> fst (run_generator counter_seed counter_normal 2 99) = Inr t"
    by (intro exI [of _ t] conjI)
  with same show ?thesis by (rule conjI)
qed

text \<open>
  The claim as stated fails at the positive sample count 2912809: the last date would be
  10000-01-01, and the run ends in \<open>OverflowError\<close> with no table.
\<close>

theorem generator_overflows_beyond_last_date:
  "run_generator counter_seed counter_normal 2912809 7 = (Inl OverflowError, 42)"
  by (simp add: run_generator_unfold generate_data_overflow counter_seed_def)

text \<open>
  Claim C8. Whenever the reader fails, \<open>load_from_csv\<close> fails too, never with a table:
  it raises one kind of error, an \<open>Exception\<close> (the load error of the specification)
  whose message names the file path and carries the text of the underlying cause. When
  the reader succeeds its table is returned as it is.
\<close>

theorem load_from_csv_wraps_failure:
  "(read_csv filepath = Inl cause \<longrightarrow>
      load_from_csv read_csv filepath
        = Inl (Exception (''Error loading data from '' @ filepath @ '': '' @ cause))
      \<and> (\<forall>df. load_from_csv read_csv filepath \<noteq> Inr df))
   \<and> (read_csv filepath = Inr df \<longrightarrow> load_from_csv read_csv filepath = Inr df)"
  by (simp add: load_from_csv_def)

theorem load_from_csv_wraps_failure_witness:
  "load_from_csv (\<lambda>p. Inl ''No such file or directory'') ''sleep.csv''
     = Inl (Exception ''Error loading data from sleep.csv: No such file or directory'')
   \<and> load_from_csv (\<lambda>p. Inr []) ''sleep.csv'' = Inr []"
  using load_from_csv_wraps_failure
      [of "\<lambda>p. Inl ''No such file or directory''" "''sleep.csv''" "''No such file or directory''" "[]"]
    load_from_csv_wraps_failure [of "\<lambda>p. Inr []" "''sleep.csv''" "''x''" "[]"]
  by simp

section \<open>Properties of the transformer\<close>

lemma keep_nonneg_not_negative: "\<not> is_negative (keep_nonneg c)"
  by (simp add: keep_nonneg_def is_negative_def split: option.splits)

lemma mask_nonneg_not_negative: "c \<in> set (numeric_cells (mask_nonneg r)) \<Longrightarrow> \<not> is_negative c"
  by (auto simp: numeric_cells_def mask_nonneg_def keep_nonneg_not_negative)

lemma set_drop_duplicates_seen: "set (drop_duplicates_seen seen rs) = set rs - set seen"
  by (induction rs arbitrary: seen) auto

lemma distinct_drop_duplicates_seen: "distinct (drop_duplicates_seen seen rs)"
  by (induction rs arbitrary: seen) (auto simp: set_drop_duplicates_seen)

lemma set_drop_duplicates: "set (drop_duplicates df) = set df"
  by (simp add: drop_duplicates_def set_drop_duplicates_seen)

lemma distinct_drop_duplicates: "distinct (drop_duplicates df)"
  by (simp add: drop_duplicates_def distinct_drop_duplicates_seen)

lemma set_sort_values_date: "set (sort_values_date df) = set df"
  by (auto simp: sort_values_date_def)

lemma distinct_sort_values_date: "distinct df \<Longrightarrow> distinct (sort_values_date df)"
  by (auto simp: sort_values_date_def)

lemma sorted_sort_values_date:
  "sorted_wrt (\<lambda>a b. date_le (date a) (date b)) (sort_values_date df)"
proof -
  let ?xs = "sort_key date_key (filter (\<lambda>r. date r \<noteq> None) df)"
  let ?ys = "filter (\<lambda>r. date r = None) df"
  have "sorted (map date_key ?xs)" by (rule sorted_sort_key)
  then have s: "sorted_wrt (\<lambda>a b. date_key a \<le> date_key b) ?xs"
    by (simp only: sorted_map)
  have 1: "sorted_wrt (\<lambda>a b. date_le (date a) (date b)) ?xs"
  proof (rule sorted_wrt_mono_rel [OF _ s])
    fix a b
    assume "a \<in> set ?xs" "b \<in> set ?xs" "date_key a \<le> date_key b"
    then show "date_le (date a) (date b)"
      by (auto simp: date_le_def date_key_def)
  qed
  have 2: "sorted_wrt (\<lambda>a b. date_le (date a) (date b)) ?ys"
  proof (rule sorted_wrt_mono_rel [OF _ sorted_wrt_true])
    fix a b :: observation
    assume "b \<in> set ?ys"
    then show "date_le (date a) (date b)" by (simp add: date_le_def)
  qed
  have 3: "\<forall>a \<in> set ?xs. \<forall>b \<in> set ?ys. date_le (date a) (date b)"
    by (simp add: date_le_def)
  from 1 2 3 show ?thesis
    unfolding sort_values_date_def sorted_wrt_append by blast
qed

lemma clean_data_unfold: "clean_data df = sort_values_date (drop_duplicates (map mask_nonneg df))"
  by (simp add: clean_data_def)

lemma clean_data_subset: "r \<in> set (clean_data df) \<Longrightarrow> \<exists>r0. r = mask_nonneg r0"
  by (auto simp: clean_data_unfold set_sort_values_date set_drop_duplicates)

lemma clean_data_dates_missing: "r \<in> set (clean_data df) \<Longrightarrow> date r = None"
  by (auto simp: mask_nonneg_def dest: clean_data_subset)

lemma sort_values_date_all_missing:
  "\<forall>r \<in> set df. date r = None \<Longrightarrow> sort_values_date df = df"
  by (simp add: sort_values_date_def filter_empty_conv)

lemma clean_data_is_mask_and_dedup: "clean_data df = drop_duplicates (map mask_nonneg df)"
proof -
  have "\<forall>r \<in> set (drop_duplicates (map mask_nonneg df)). date r = None"
    by (auto simp: set_drop_duplicates mask_nonneg_def)
  then show ?thesis by (simp add: clean_data_unfold sort_values_date_all_missing)
qed

lemma clean_data_no_negative_cell:
  "r \<in> set (clean_data df) \<Longrightarrow> c \<in> set (numeric_cells r) \<Longrightarrow> \<not> is_negative c"
  using clean_data_subset mask_nonneg_not_negative by blast

lemma clean_data_distinct: "distinct (clean_data df)"
  by (simp add: clean_data_unfold distinct_sort_values_date distinct_drop_duplicates)

text \<open>
  Claim C1 does not hold of the code. The first statement of \<open>clean_data\<close>, under the
  comment \<open># Remove negative values\<close>, indexes the table with a Boolean table and so
  masks cells instead of removing rows: a row with a negative value stays, with the value
  replaced by the missing marker, and every date is replaced by NaT. The statement under
  \<open># Sort by date\<close> then sorts a column of missing dates and leaves the rows in their
  input order (\<open>clean_data_is_mask_and_dedup\<close>). On the first table below, whose dates
  are in descending order and whose first row has a negative sleep duration, both rows come
  back, in input order and without their dates. On the second table, two nights that differ
  in their dates only are merged into one row by \<open>drop_duplicates\<close>.
\<close>

theorem clean_data_keeps_negative_row_and_input_order:
  "clean_data [typical_night\<lparr>date := Some 20095, sleep_duration := Some (- 1)\<rparr>,
               typical_night\<lparr>date := Some 20089\<rparr>]
     = [typical_night\<lparr>date := None, sleep_duration := None\<rparr>, typical_night\<lparr>date := None\<rparr>]
   \<and> clean_data [typical_night\<lparr>date := Some 20089\<rparr>, typical_night\<lparr>date := Some 20090\<rparr>]
     = [typical_night\<lparr>date := None\<rparr>]"
  by (simp add: clean_data_def sort_values_date_def drop_duplicates_def mask_nonneg_def
      keep_nonneg_def typical_night_def)

lemma length_shift1: "length (shift1 xs) = length xs"
  by (cases xs) (simp_all add: shift1_def)

lemma length_series_diff: "length (series_diff xs) = length xs"
  by (simp add: series_diff_def length_shift1)

lemma shift1_nth: "i < length xs \<Longrightarrow> shift1 xs ! i = (if i = 0 then None else xs ! (i - 1))"
  by (cases xs) (auto simp: shift1_def nth_Cons nth_butlast split: nat.splits)

lemma series_diff_nth:
  "i < length xs \<Longrightarrow> series_diff xs ! i = (if i = 0 then None else nan2 (-) (xs ! i) (xs ! (i - 1)))"
  by (simp add: series_diff_def length_shift1 shift1_nth nan2_def split: option.splits)

lemma length_engineer_features: "length (engineer_features df) = length df"
  by (simp add: engineer_features_def Let_def length_series_diff)

lemma engineer_features_nth_shift:
  "i < length df \<Longrightarrow> bedtime_shift (engineer_features df ! i)
     = (if i = 0 then None else map_option abs (nan2 (-) (bedtime (df ! i)) (bedtime (df ! (i - 1)))))"
  by (simp add: engineer_features_def Let_def length_series_diff series_diff_nth
      observation.defs engineered.defs)

lemma engineer_features_nth_eff:
  "i < length df \<Longrightarrow> sleep_efficiency (engineer_features df ! i)
     = nan2 (\<lambda>d p. (d + 0.5 * p) / 100) (deep_sleep_pct (df ! i)) (rem_sleep_pct (df ! i))"
  by (simp add: engineer_features_def Let_def length_series_diff
      observation.defs engineered.defs nan2_def split: option.splits)

lemma engineer_features_nth_base:
  "i < length df \<Longrightarrow> bedtime (engineer_features df ! i) = bedtime (df ! i)"
  by (simp add: engineer_features_def Let_def length_series_diff
      observation.defs engineered.defs)

lemma engineer_features_nth_deep:
  "i < length df \<Longrightarrow> deep_sleep_pct (engineer_features df ! i) = deep_sleep_pct (df ! i)"
  by (simp add: engineer_features_def Let_def length_series_diff
      observation.defs engineered.defs)

lemma engineer_features_nth_rem:
  "i < length df \<Longrightarrow> rem_sleep_pct (engineer_features df ! i) = rem_sleep_pct (df ! i)"
  by (simp add: engineer_features_def Let_def length_series_diff
      observation.defs engineered.defs)

lemma shift_missing_iff:
  "(map_option abs (nan2 (-) x y) = None) = (x = None \<or> y = None)"
  by (simp add: nan2_def split: option.splits)

text \<open>
  Claim C7, as amended. After \<open>engineer_features\<close> the table has the rows of the input
  with their deep sleep, REM sleep and bedtime columns unchanged, and every row has
  \<open>sleep_efficiency = (deep_sleep_pct + 0.5 * rem_sleep_pct) / 100\<close> (missing when one of
  the two is). \<open>bedtime_shift\<close> is missing in the first row of the table as it stands
  (the date-sorted order once \<open>clean_data\<close> has run); in every other row it is the
  absolute difference between the bedtime of the row and of the row before when both are
  present, and it is missing exactly when one of the two is. So when no bedtime is missing,
  the first row is the only one with the missing marker.
\<close>

theorem engineer_features_efficiency_and_shift:
  "length (engineer_features df) = length df
   \<and> (\<forall>i<length df. deep_sleep_pct (engineer_features df ! i) = deep_sleep_pct (df ! i)
          \<and> rem_sleep_pct (engineer_features df ! i) = rem_sleep_pct (df ! i)
          \<and> bedtime (engineer_features df ! i) = bedtime (df ! i))
   \<and> (\<forall>i<length df. sleep_efficiency (engineer_features df ! i)
          = nan2 (\<lambda>d p. (d + 0.5 * p) / 100)
              (deep_sleep_pct (engineer_features df ! i)) (rem_sleep_pct (engineer_features df ! i)))
   \<and> (\<forall>i<length df. bedtime_shift (engineer_features df ! i)
          = (if i = 0 then None
             else map_option abs (nan2 (-) (bedtime (engineer_features df ! i))
                                     (bedtime (engineer_features df ! (i - 1))))))
   \<and> (\<forall>i<length df. (bedtime_shift (engineer_features df ! i) = None)
          = (i = 0 \<or> bedtime (engineer_features df ! i) = None
               \<or> bedtime (engineer_features df ! (i - 1)) = None))
   \<and> ((\<forall>r \<in> set (engineer_features df). bedtime r \<noteq> None) \<longrightarrow>
        (\<forall>i<length df. (bedtime_shift (engineer_features df ! i) = None) = (i = 0)))"
proof -
  have base: "\<forall>i<length df. deep_sleep_pct (engineer_features df ! i) = deep_sleep_pct (df ! i)
          \<and> rem_sleep_pct (engineer_features df ! i) = rem_sleep_pct (df ! i)
          \<and> bedtime (engineer_features df ! i) = bedtime (df ! i)"
    by (simp add: engineer_features_nth_deep engineer_features_nth_rem engineer_features_nth_base)
  have eff: "\<forall>i<length df. sleep_efficiency (engineer_features df ! i)
          = nan2 (\<lambda>d p. (d + 0.5 * p) / 100)
              (deep_sleep_pct (engineer_features df ! i)) (rem_sleep_pct (engineer_features df ! i))"
    by (simp add: engineer_features_nth_eff engineer_features_nth_deep engineer_features_nth_rem)
  have shift: "\<forall>i<length df. bedtime_shift (engineer_features df ! i)
          = (if i = 0 then None
             else map_option abs (nan2 (-) (bedtime (engineer_features df ! i))
                                     (bedtime (engineer_features df ! (i - 1)))))"
  proof (intro allI impI)
    fix i
    assume i: "i < length df"
    then have "i - 1 < length df" by simp
    with i show "bedtime_shift (engineer_features df ! i)
          = (if i = 0 then None
             else map_option abs (nan2 (-) (bedtime (engineer_features df ! i))
                                     (bedtime (engineer_features df ! (i - 1)))))"
      by (simp only: engineer_features_nth_shift engineer_features_nth_base)
  qed
  have missing: "\<forall>i<length df. (bedtime_shift (engineer_features df ! i) = None)
          = (i = 0 \<or> bedtime (engineer_features df ! i) = None
               \<or> bedtime (engineer_features df ! (i - 1)) = None)"
  proof (intro allI impI)
    fix i
    assume i: "i < length df"
    show "(bedtime_shift (engineer_features df ! i) = None)
          = (i = 0 \<or> bedtime (engineer_features df ! i) = None
               \<or> bedtime (engineer_features df ! (i - 1)) = None)"
    proof (cases "i = 0")
      case True
      with i shift show ?thesis by simp
    next
      case False
      with i shift have "bedtime_shift (engineer_features df ! i)
          = map_option abs (nan2 (-) (bedtime (engineer_features df ! i))
                                     (bedtime (engineer_features df ! (i - 1))))"
        by simp
      with False show ?thesis by (simp only: shift_missing_iff simp_thms)
    qed
  qed
  have only_first: "(\<forall>r \<in> set (engineer_features df). bedtime r \<noteq> None) \<longrightarrow>
        (\<forall>i<length df. (bedtime_shift (engineer_features df ! i) = None) = (i = 0))"
  proof (intro impI allI)
    fix i
    assume present: "\<forall>r \<in> set (engineer_features df). bedtime r \<noteq> None"
      and i: "i < length df"
    then have "i < length (engineer_features df)" "i - 1 < length (engineer_features df)"
      by (simp_all add: length_engineer_features)
    then have "engineer_features df ! i \<in> set (engineer_features df)"
      "engineer_features df ! (i - 1) \<in> set (engineer_features df)"
      by (simp_all only: nth_mem)
    with present have "bedtime (engineer_features df ! i) \<noteq> None"
      "bedtime (engineer_features df ! (i - 1)) \<noteq> None"
      by blast+
    with missing i show "(bedtime_shift (engineer_features df ! i) = None) = (i = 0)"
      by (simp del: not_None_eq)
  qed
  from base eff shift missing only_first show ?thesis
    by (simp only: length_engineer_features simp_thms)
qed

theorem engineer_features_efficiency_and_shift_witness:
  "length (engineer_features [typical_night, typical_night\<lparr>date := Some 20090, bedtime := Some 22\<rparr>]) = 2
   \<and> sleep_efficiency (engineer_features [typical_night, typical_night\<lparr>date := Some 20090, bedtime := Some 22\<rparr>] ! 0) = Some (13 / 40)
   \<and> bedtime_shift (engineer_features [typical_night, typical_night\<lparr>date := Some 20090, bedtime := Some 22\<rparr>] ! 0) = None
   \<and> bedtime_shift (engineer_features [typical_night, typical_night\<lparr>date := Some 20090, bedtime := Some 22\<rparr>] ! 1) = Some 1"
  using engineer_features_efficiency_and_shift
    [of "[typical_night, typical_night\<lparr>date := Some 20090, bedtime := Some 22\<rparr>]"]
  by (simp add: typical_night_def nan2_def All_less_Suc)

text \<open>
  The claim as stated fails on a table with a missing bedtime: the second row here has no
  bedtime, and its \<open>bedtime_shift\<close> is missing although it is not the first row.
\<close>

theorem bedtime_shift_missing_beyond_first_row:
  "bedtime_shift (engineer_features [typical_night, typical_night\<lparr>bedtime := None\<rparr>] ! 1) = None"
  by (simp add: engineer_features_def series_diff_def shift1_def typical_night_def nan2_def
      observation.defs engineered.defs)

section \<open>Properties of the analyzer\<close>

lemma select_by_mask: "map fst (filter snd (zip xs (map f xs))) = filter f xs"
  by (induction xs) simp_all

lemma those_map_Some: "those (map Some xs) = Some xs"
  by (induction xs) simp_all

lemma those_present:
  "(\<forall>c \<in> set cs. c \<noteq> None) \<Longrightarrow> those cs = Some (map the cs)"
  by (induction cs) auto

lemma those_length: "those cs = Some xs \<Longrightarrow> length xs = length cs"
  by (induction cs arbitrary: xs) (auto split: option.splits)

lemma zscore_zero_std:
  "those cs = Some xs \<Longrightarrow> np_std xs = 0 \<Longrightarrow> zscore cs = map (\<lambda>_. None) cs"
  by (simp add: zscore_def Let_def map_replicate_const those_length)

lemma sum_list_constant: "(\<forall>x \<in> set xs. x = c) \<Longrightarrow> sum_list xs = real (length xs) * c"
  by (induction xs) (auto simp: algebra_simps)

lemma np_mean_constant: "xs \<noteq> [] \<Longrightarrow> (\<forall>x \<in> set xs. x = c) \<Longrightarrow> np_mean xs = c"
  by (simp add: np_mean_def sum_list_constant)

lemma sum_list_all_zero: "(\<forall>x \<in> set xs. f x = (0::real)) \<Longrightarrow> sum_list (map f xs) = 0"
  by (induction xs) simp_all

lemma np_std_constant: "(\<forall>x \<in> set xs. x = c) \<Longrightarrow> np_std xs = 0"
proof (cases "xs = []")
  case True
  then show ?thesis by (simp add: np_std_def np_mean_def)
next
  case False
  assume c: "\<forall>x \<in> set xs. x = c"
  with False have "np_mean xs = c" by (rule np_mean_constant)
  with c have "\<forall>x \<in> set xs. (x - np_mean xs)\<^sup>2 = 0" by simp
  then have "sum_list (map (\<lambda>x. (x - np_mean xs)\<^sup>2) xs) = 0" by (rule sum_list_all_zero)
  then show ?thesis by (simp add: np_std_def np_mean_def [of "map _ _"])
qed

lemma those_Some_map: "those cs = Some xs \<Longrightarrow> cs = map Some xs"
  by (induction cs arbitrary: xs) (auto split: option.splits)

lemma detect_without_zscore:
  "map_of columns column = Some (Numeric col) \<Longrightarrow> zscore (map col df) = map (\<lambda>_. None) (map col df)
     \<Longrightarrow> detect_anomalies column threshold df = Inr []"
  by (simp add: detect_anomalies_def o_def select_by_mask exceeds_def)

lemma detect_constant:
  assumes col: "map_of columns column = Some (Numeric col)"
    and const: "\<forall>r \<in> set df. \<forall>r' \<in> set df. col r = col r'"
  shows "detect_anomalies column threshold df = Inr []"
proof (cases "those (map col df)")
  case None
  then have "zscore (map col df) = map (\<lambda>_. None) (map col df)" by (simp add: zscore_def)
  with col show ?thesis by (rule detect_without_zscore)
next
  case (Some xs)
  from those_Some_map [OF Some] have "set (map col df) = set (map Some xs)" by simp
  then have eq: "col ` set df = Some ` set xs" by simp
  have "\<forall>x \<in> set xs. \<forall>y \<in> set xs. x = y"
  proof (intro ballI)
    fix x y
    assume "x \<in> set xs" "y \<in> set xs"
    with eq have "Some x \<in> col ` set df" "Some y \<in> col ` set df" by blast+
    then obtain r r' where "r \<in> set df" "col r = Some x" "r' \<in> set df" "col r' = Some y"
      by (metis imageE)
    with const show "x = y" by (metis option.inject)
  qed
  then have "\<exists>c. \<forall>x \<in> set xs. x = c" by (cases xs) auto
  then have "np_std xs = 0" using np_std_constant by blast
  with Some have "zscore (map col df) = map (\<lambda>_. None) (map col df)" by (rule zscore_zero_std)
  with col show ?thesis by (rule detect_without_zscore)
qed

lemma detect_regular:
  assumes col: "map_of columns column = Some (Numeric col)"
    and present: "\<forall>r \<in> set df. col r \<noteq> None"
    and spread: "np_std (map (\<lambda>r. the (col r)) df) \<noteq> 0"
  shows "detect_anomalies column threshold df
     = Inr (filter (\<lambda>r. \<bar>(the (col r) - np_mean (map (\<lambda>r. the (col r)) df))
                          / np_std (map (\<lambda>r. the (col r)) df)\<bar> > threshold) df)"
proof -
  from present have "those (map col df) = Some (map the (map col df))"
    by (intro those_present) simp
  then have "those (map col df) = Some (map (\<lambda>r. the (col r)) df)" by (simp add: o_def)
  with col spread show ?thesis
    by (simp add: detect_anomalies_def zscore_def Let_def o_def select_by_mask exceeds_def)
qed

lemma those_missing: "\<not> (\<forall>c \<in> set cs. c \<noteq> None) \<Longrightarrow> those cs = None"
  by (induction cs) (auto split: option.splits)

lemma detect_missing:
  assumes col: "map_of columns column = Some (Numeric col)"
    and missing: "\<not> (\<forall>r \<in> set df. col r \<noteq> None)"
  shows "detect_anomalies column threshold df = Inr []"
proof -
  from missing have "\<not> (\<forall>c \<in> set (map col df). c \<noteq> None)" by simp
  then have "those (map col df) = None" by (rule those_missing)
  then have "zscore (map col df) = map (\<lambda>_. None) (map col df)" by (simp add: zscore_def)
  with col show ?thesis by (rule detect_without_zscore)
qed

lemma detect_zero_std:
  assumes col: "map_of columns column = Some (Numeric col)"
    and present: "\<forall>r \<in> set df. col r \<noteq> None"
    and flat: "np_std (map (\<lambda>r. the (col r)) df) = 0"
  shows "detect_anomalies column threshold df = Inr []"
proof -
  from present have "those (map col df) = Some (map the (map col df))"
    by (intro those_present) simp
  then have "those (map col df) = Some (map (\<lambda>r. the (col r)) df)" by (simp add: o_def)
  then have "zscore (map col df) = map (\<lambda>_. None) (map col df)" using flat by (rule zscore_zero_std)
  with col show ?thesis by (rule detect_without_zscore)
qed

text \<open>
  Claim C2, as amended. For every table, every numeric column and every threshold,
  \<open>detect_anomalies\<close> raises nothing. When no value of the column is missing and its
  standard deviation is not zero, it returns exactly the rows whose absolute z-score,
  computed from the mean and the population standard deviation (\<open>ddof = 0\<close>) of the
  column itself, is strictly greater than the threshold, in row order. Otherwise, and so
  whenever the column has zero variance, every z-score is undefined and it returns the
  empty table.
\<close>

theorem detect_anomalies_strict_and_silent_on_zero_variance:
  assumes "map_of columns column = Some (Numeric col)"
  shows "detect_anomalies column threshold df
      = (if (\<forall>r \<in> set df. col r \<noteq> None) \<and> np_std (map (\<lambda>r. the (col r)) df) \<noteq> 0
         then Inr (filter (\<lambda>r. \<bar>(the (col r) - np_mean (map (\<lambda>r. the (col r)) df))
                                  / np_std (map (\<lambda>r. the (col r)) df)\<bar> > threshold) df)
         else Inr [])
    \<and> ((\<forall>r \<in> set df. \<forall>r' \<in> set df. col r = col r') \<longrightarrow>
          detect_anomalies column threshold df = Inr [])"
proof (intro conjI impI)
  show "detect_anomalies column threshold df
      = (if (\<forall>r \<in> set df. col r \<noteq> None) \<and> np_std (map (\<lambda>r. the (col r)) df) \<noteq> 0
         then Inr (filter (\<lambda>r. \<bar>(the (col r) - np_mean (map (\<lambda>r. the (col r)) df))
                                  / np_std (map (\<lambda>r. the (col r)) df)\<bar> > threshold) df)
         else Inr [])"
  proof (cases "(\<forall>r \<in> set df. col r \<noteq> None) \<and> np_std (map (\<lambda>r. the (col r)) df) \<noteq> 0")
    case True
    then have "\<forall>r \<in> set df. col r \<noteq> None" and "np_std (map (\<lambda>r. the (col r)) df) \<noteq> 0"
      by blast+
    with assms have "detect_anomalies column threshold df
         = Inr (filter (\<lambda>r. \<bar>(the (col r) - np_mean (map (\<lambda>r. the (col r)) df))
                          / np_std (map (\<lambda>r. the (col r)) df)\<bar> > threshold) df)"
      by (rule detect_regular)
    then show ?thesis by (simp only: if_P [OF True])
  next
    case False
    have "detect_anomalies column threshold df = Inr []"
    proof (cases "\<forall>r \<in> set df. col r \<noteq> None")
      case present: True
      with False have "np_std (map (\<lambda>r. the (col r)) df) = 0" by blast
      with assms present show ?thesis by (rule detect_zero_std)
    next
      case missing: False
      with assms show ?thesis by (rule detect_missing)
    qed
    then show ?thesis by (simp only: if_not_P [OF False])
  qed
next
  assume "\<forall>r \<in> set df. \<forall>r' \<in> set df. col r = col r'"
  with assms show "detect_anomalies column threshold df = Inr []" by (rule detect_constant)
qed

theorem detect_anomalies_strict_and_silent_on_zero_variance_witness:
  "detect_anomalies ''sleep_duration'' (1 / 2) (nights 6 8) = Inr (nights 6 8)
   \<and> detect_anomalies ''sleep_duration'' 1 (nights 6 8) = Inr []
   \<and> detect_anomalies ''stress_level'' 2 (nights 6 8) = Inr []"
  using detect_anomalies_strict_and_silent_on_zero_variance
      [of "''sleep_duration''" sleep_duration "1 / 2" "nights 6 8"]
    detect_anomalies_strict_and_silent_on_zero_variance
      [of "''sleep_duration''" sleep_duration 1 "nights 6 8"]
    detect_anomalies_strict_and_silent_on_zero_variance
      [of "''stress_level''" stress_level 2 "nights 6 8"]
  by (simp add: columns_def np_std_def np_mean_def
      nights_def engineer_features_def series_diff_def shift1_def typical_night_def nan2_def
      observation.defs engineered.defs Let_def)

text \<open>
  The claim as stated fails on a column of zero variance: both nights below have a sleep
  duration of 7 hours, and the result is the empty table, not an error.
\<close>

theorem zero_variance_returns_empty:
  "np_std (map (\<lambda>r. the (sleep_duration r)) (nights 7 7)) = 0
   \<and> detect_anomalies ''sleep_duration'' 2 (nights 7 7) = Inr []"
  by (simp add: detect_anomalies_def columns_def zscore_def np_std_def np_mean_def exceeds_def
      nights_def engineer_features_def series_diff_def shift1_def typical_night_def nan2_def
      observation.defs engineered.defs Let_def)

lemma rint_close: "\<bar>of_int (rint y) - y\<bar> \<le> 1 / 2"
proof -
  have "of_int \<lfloor>y\<rfloor> \<le> y" "y < of_int \<lfloor>y\<rfloor> + 1" by linarith+
  then show ?thesis by (auto simp: rint_def Let_def)
qed

lemma np_round2_close: "\<bar>np_round2 x - x\<bar> \<le> 1 / 200"
proof -
  have "\<bar>of_int (rint (x * 100)) - x * 100\<bar> \<le> 1 / 2" by (rule rint_close)
  then show ?thesis by (simp add: np_round2_def field_simps)
qed

lemma map_filter_present:
  "(\<forall>c \<in> set cs. c \<noteq> None) \<Longrightarrow> List.map_filter (\<lambda>c. c) cs = map the cs"
  by (induction cs) auto

lemma nanmean_present:
  "cs \<noteq> [] \<Longrightarrow> (\<forall>c \<in> set cs. c \<noteq> None) \<Longrightarrow> nanmean cs = Some (np_mean (map the cs))"
  by (simp add: nanmean_def map_filter_present)

lemma sum_list_pick:
  "distinct ks \<Longrightarrow> sum_list (map (\<lambda>k. if k = k0 then c else (0::real)) ks) = (if k0 \<in> set ks then c else 0)"
  by (induction ks) auto

lemma sum_list_groups:
  fixes f :: "'r \<Rightarrow> real" and key :: "'r \<Rightarrow> int option"
  assumes "distinct ks" and "\<forall>r \<in> set df. \<exists>k \<in> set ks. key r = Some k"
  shows "sum_list (map (\<lambda>k. sum_list (map f (filter (\<lambda>r. key r = Some k) df))) ks)
           = sum_list (map f df)"
  using assms(2)
proof (induction df)
  case Nil
  show ?case by simp
next
  case (Cons r rs)
  then obtain k0 where k0: "k0 \<in> set ks" "key r = Some k0" by auto
  have "sum_list (map (\<lambda>k. sum_list (map f (filter (\<lambda>r. key r = Some k) (r # rs)))) ks)
      = sum_list (map (\<lambda>k. (if k = k0 then f r else 0)
                         + sum_list (map f (filter (\<lambda>r. key r = Some k) rs))) ks)"
    using k0 by (intro arg_cong [where f = sum_list] map_cong) auto
  also have "\<dots> = sum_list (map (\<lambda>k. if k = k0 then f r else 0) ks)
      + sum_list (map (\<lambda>k. sum_list (map f (filter (\<lambda>r. key r = Some k) rs))) ks)"
    by (simp add: sum_list_addf)
  also have "\<dots> = f r + sum_list (map f rs)"
    using Cons k0 assms(1) by (simp add: sum_list_pick)
  finally show ?case by simp
qed

lemma weighted_bound:
  fixes w g h :: "int \<Rightarrow> real"
  assumes "\<forall>k \<in> set ks. 0 \<le> w k" and "\<forall>k \<in> set ks. \<bar>g k - h k\<bar> \<le> e"
  shows "\<bar>sum_list (map (\<lambda>k. w k * g k) ks) - sum_list (map (\<lambda>k. w k * h k) ks)\<bar>
           \<le> sum_list (map w ks) * e"
  using assms
proof (induction ks)
  case Nil
  show ?case by simp
next
  case (Cons k ks)
  then have ih: "\<bar>sum_list (map (\<lambda>k. w k * g k) ks) - sum_list (map (\<lambda>k. w k * h k) ks)\<bar>
           \<le> sum_list (map w ks) * e" by simp
  from Cons.prems have wk: "0 \<le> w k" and gk: "\<bar>g k - h k\<bar> \<le> e" by simp_all
  have "\<bar>w k * g k - w k * h k\<bar> = w k * \<bar>g k - h k\<bar>"
    using wk by (simp add: abs_mult flip: right_diff_distrib)
  also have "\<dots> \<le> w k * e" using wk gk by (rule mult_left_mono [rotated])
  finally have "\<bar>w k * g k - w k * h k\<bar> \<le> w k * e" .
  with ih show ?case by (simp add: algebra_simps)
qed

lemma foldr_weighted:
  "foldr (\<lambda>(k, m) acc. nan2 (+) (map_option (\<lambda>x. w k * x) m) acc)
       (map (\<lambda>k. (k, Some (g k))) ks) (Some 0)
     = Some (sum_list (map (\<lambda>k. w k * g k) ks))"
  by (induction ks) (simp_all add: nan2_def)

lemma set_map_filter: "set (List.map_filter f xs) = {y. \<exists>x \<in> set xs. f x = Some y}"
  by (induction xs) (auto split: option.splits)

lemma set_group_keys: "set (group_keys df) = {k. \<exists>r \<in> set df. day_of_week r = Some k}"
  by (simp add: group_keys_def set_map_filter)

lemma distinct_group_keys: "distinct (group_keys df)"
  by (simp add: group_keys_def)

lemma length_as_sum: "real (length xs) = sum_list (map (\<lambda>_. 1) xs)"
  by (induction xs) simp_all

lemma mean_times_length: "real (length xs) * np_mean xs = sum_list xs"
  by (cases "xs = []") (simp_all add: np_mean_def)

lemma reaggregate_close:
  assumes nonempty: "df \<noteq> []"
    and keyed: "\<forall>r \<in> set df. day_of_week r \<noteq> None"
    and present: "\<forall>r \<in> set df. col r \<noteq> None"
  shows "\<exists>a b. reaggregate (map (\<lambda>(k, m). (k, map_option np_round2 m)) (groupby_mean col df)) df = Some a
           \<and> nanmean (map col df) = Some b \<and> \<bar>a - b\<bar> \<le> 1 / 200"
proof -
  define ks where "ks = group_keys df"
  define val where "val = (\<lambda>r. the (col r))"
  define w where "w = (\<lambda>k. real (length (group_rows k df)))"
  define mu where "mu = (\<lambda>k. np_mean (map val (group_rows k df)))"
  have dist: "distinct ks" by (simp add: ks_def distinct_group_keys)
  have cover: "\<forall>r \<in> set df. \<exists>k \<in> set ks. day_of_week r = Some k"
    using keyed unfolding ks_def set_group_keys by blast
  have group_mean: "nanmean (map col (group_rows k df)) = Some (mu k)" if "k \<in> set ks" for k
  proof -
    from that have "group_rows k df \<noteq> []"
      by (auto simp: ks_def set_group_keys group_rows_def filter_empty_conv)
    moreover have "\<forall>c \<in> set (map col (group_rows k df)). c \<noteq> None"
      using present by (auto simp: group_rows_def)
    ultimately show ?thesis
      by (simp add: nanmean_present mu_def val_def o_def)
  qed
  have means: "map (\<lambda>(k, m). (k, map_option np_round2 m)) (groupby_mean col df)
      = map (\<lambda>k. (k, Some (np_round2 (mu k)))) ks"
    unfolding groupby_mean_def ks_def [symmetric]
    by (simp add: group_mean)
  have total_w: "sum_list (map w ks) = real (length df)"
  proof -
    have "sum_list (map (\<lambda>k. sum_list (map (\<lambda>_. 1) (filter (\<lambda>r. day_of_week r = Some k) df))) ks)
        = sum_list (map (\<lambda>_. 1::real) df)"
      using dist cover by (rule sum_list_groups)
    then show ?thesis by (simp add: w_def group_rows_def flip: length_as_sum)
  qed
  have total_mu: "sum_list (map (\<lambda>k. w k * mu k) ks) = sum_list (map val df)"
  proof -
    have "sum_list (map (\<lambda>k. sum_list (map val (filter (\<lambda>r. day_of_week r = Some k) df))) ks)
        = sum_list (map val df)"
      using dist cover by (rule sum_list_groups)
    moreover have "w k * mu k = sum_list (map val (filter (\<lambda>r. day_of_week r = Some k) df))" for k
      using mean_times_length [of "map val (group_rows k df)"]
      by (simp add: w_def mu_def group_rows_def)
    ultimately show ?thesis by simp
  qed
  have n_pos: "0 < real (length df)" using nonempty by simp
  define a where "a = sum_list (map (\<lambda>k. w k * np_round2 (mu k)) ks) / real (length df)"
  define b where "b = np_mean (map val df)"
  have ra: "reaggregate (map (\<lambda>(k, m). (k, map_option np_round2 m)) (groupby_mean col df)) df = Some a"
    using n_pos total_w foldr_weighted [of w "\<lambda>k. np_round2 (mu k)" ks]
    by (simp add: means reaggregate_def Let_def o_def a_def w_def)
  have rb: "nanmean (map col df) = Some b"
    using nonempty present by (simp add: nanmean_present b_def val_def o_def)
  have weights: "\<forall>k \<in> set ks. 0 \<le> w k" by (simp add: w_def)
  have rounded: "\<forall>k \<in> set ks. \<bar>np_round2 (mu k) - mu k\<bar> \<le> 1 / 200"
    using np_round2_close by blast
  from weights rounded
  have "\<bar>sum_list (map (\<lambda>k. w k * np_round2 (mu k)) ks) - sum_list (map (\<lambda>k. w k * mu k) ks)\<bar>
      \<le> sum_list (map w ks) * (1 / 200)"
    by (rule weighted_bound)
  then have "\<bar>a * real (length df) - b * real (length df)\<bar> \<le> real (length df) * (1 / 200)"
    using n_pos by (simp add: a_def b_def total_w total_mu np_mean_def)
  then have "\<bar>a - b\<bar> * real (length df) \<le> (1 / 200) * real (length df)"
    using n_pos by (simp add: abs_mult flip: left_diff_distrib)
  then have "\<bar>a - b\<bar> \<le> 1 / 200"
    using n_pos by (rule mult_right_le_imp_le)
  with ra rb show ?thesis by blast
qed

text \<open>
  Claim C9, as amended. For every column of the weekly means and every table that is not
  empty, in which every row has a day of the week and no value of the column is missing,
  the weekly means of the column, re-aggregated with the row count of each day group as
  weight, and the mean of the whole column are both defined and differ by at most 0.005,
  half a unit of the second decimal place.
\<close>

theorem weekly_means_reaggregate_to_overall_mean:
  assumes "j < length weekly_columns"
    and "df \<noteq> []"
    and "\<forall>r \<in> set df. day_of_week r \<noteq> None"
    and "\<forall>r \<in> set df. (weekly_columns ! j) r \<noteq> None"
  shows "\<exists>a b. reaggregate (analyze_weekly_patterns df ! j) df = Some a
           \<and> nanmean (map (weekly_columns ! j) df) = Some b \<and> \<bar>a - b\<bar> \<le> 1 / 200"
proof -
  from assms(1) have "analyze_weekly_patterns df ! j
      = map (\<lambda>(k, m). (k, map_option np_round2 m)) (groupby_mean (weekly_columns ! j) df)"
    by (simp add: analyze_weekly_patterns_def)
  with reaggregate_close [OF assms(2) assms(3) assms(4)] show ?thesis by simp
qed

theorem weekly_means_reaggregate_to_overall_mean_witness:
  "reaggregate (analyze_weekly_patterns (nights (6001 / 1000) 8) ! 0) (nights (6001 / 1000) 8) = Some 7
   \<and> nanmean (map sleep_duration (nights (6001 / 1000) 8)) = Some (14001 / 2000)"
  using weekly_means_reaggregate_to_overall_mean [of 0 "nights (6001 / 1000) 8"]
  by (simp del: not_None_eq add: weekly_columns_def analyze_weekly_patterns_def groupby_mean_def group_keys_def
      group_rows_def nanmean_def np_mean_def np_round2_def rint_def reaggregate_def
      List.map_filter_def dayofweek_def
      nights_def engineer_features_def series_diff_def shift1_def typical_night_def nan2_def
      observation.defs engineered.defs Let_def)

text \<open>
  The claim as stated fails when something is missing. In the first table the second of
  the two nights of the first day has no quality score: its group has two rows and the
  mean 80 of the one score present, so the re-aggregation gives 70, and the mean of the
  column is 65. In the second table the second night has no date, hence no day of the
  week: it is in no group, the re-aggregation gives 80, and the mean of the column is 65.
\<close>

theorem weekly_means_skip_missing_cells_and_days:
  "reaggregate
      (analyze_weekly_patterns (engineer_features [typical_night\<lparr>quality_score := Some 80\<rparr>,
         typical_night\<lparr>quality_score := None\<rparr>,
         typical_night\<lparr>date := Some 20090, quality_score := Some 50\<rparr>]) ! 1)
      (engineer_features [typical_night\<lparr>quality_score := Some 80\<rparr>,
         typical_night\<lparr>quality_score := None\<rparr>,
         typical_night\<lparr>date := Some 20090, quality_score := Some 50\<rparr>]) = Some 70
   \<and> nanmean (map quality_score (engineer_features [typical_night\<lparr>quality_score := Some 80\<rparr>,
         typical_night\<lparr>quality_score := None\<rparr>,
         typical_night\<lparr>date := Some 20090, quality_score := Some 50\<rparr>])) = Some 65
   \<and> reaggregate
      (analyze_weekly_patterns (engineer_features [typical_night\<lparr>quality_score := Some 80\<rparr>,
         typical_night\<lparr>date := None, quality_score := Some 50\<rparr>]) ! 1)
      (engineer_features [typical_night\<lparr>quality_score := Some 80\<rparr>,
         typical_night\<lparr>date := None, quality_score := Some 50\<rparr>]) = Some 80
   \<and> nanmean (map quality_score (engineer_features [typical_night\<lparr>quality_score := Some 80\<rparr>,
         typical_night\<lparr>date := None, quality_score := Some 50\<rparr>])) = Some 65"
  by (simp add: weekly_columns_def analyze_weekly_patterns_def groupby_mean_def group_keys_def
      group_rows_def nanmean_def np_mean_def np_round2_def rint_def reaggregate_def
      List.map_filter_def dayofweek_def
      nights_def engineer_features_def series_diff_def shift1_def typical_night_def nan2_def
      observation.defs engineered.defs Let_def)

end
